theory Spec2Isabelle
  imports Main
begin

section \<open>Python values, exceptions and printed output\<close>

text \<open>
  The module \<^verbatim>\<open>fastrag/agents/create_agent.py\<close> works on dynamically typed values:
  keyword arguments, YAML configuration and the dictionaries it appends to its histories.
  They are modelled by the JSON-like fragment below. A dictionary is an association list
  in insertion order with string keys; keys are unique in every dictionary the module builds.
\<close>

datatype pyval =
    PNone
  | PInt int
  | PStr string
  | PList "pyval list"
  | PDict "(string \<times> pyval) list"

type_synonym pydict = "(string \<times> pyval) list"

text \<open>
  Exceptions are values. \<open>NonException\<close> stands for the exceptions that do not derive from
  \<^verbatim>\<open>Exception\<close> (\<^verbatim>\<open>KeyboardInterrupt\<close>, \<^verbatim>\<open>SystemExit\<close>): the clause
  \<^verbatim>\<open>except Exception\<close> lets them pass. \<open>UnknownToolError\<close> is the error the specification
  names for a dispatch by an unregistered name. \<open>OutsideFragment\<close> is not a Python
  exception: it marks a replacement field of \<^verbatim>\<open>str.format\<close> that the model of
  formatting below does not cover.
\<close>

datatype exn =
    KeyError pyval
  | TypeError
  | ValueError
  | IndexError
  | AttributeError
  | UnknownToolError string
  | OtherException string
  | NonException string
  | OutsideFragment

fun is_Exception :: "exn \<Rightarrow> bool" where
  "is_Exception (NonException _) = False"
| "is_Exception _ = True"

text \<open>
  A printed line is the sequence of the parts of its f-string: literal text or the
  formatting of a value. Standard output is the list of lines.
\<close>

datatype fpart = Lit string | Fmt pyval

type_synonym stdout = "fpart list list"

text \<open>
  The diagnostic calls of an exception handler can fail themselves: \<^verbatim>\<open>str(e)\<close> returns
  the text of the exception or raises, and \<^verbatim>\<open>print\<close> formats and writes its line or
  raises (a closed or broken stream, a text the stream cannot encode). An exception raised
  there takes the place of the one being handled. Both calls are parameters; a line counts
  as output when its \<^verbatim>\<open>print\<close> has returned.
\<close>

record console =
  str_of_exception :: "exn \<Rightarrow> exn + string"
  print_line :: "fpart list \<Rightarrow> exn option"

text \<open>\<^verbatim>\<open>DEBUG_MODE = True\<close> (line 12).\<close>

definition DEBUG_MODE :: bool where
  "DEBUG_MODE = True"

text \<open>An \<^verbatim>\<open>Optional[Dict]\<close> argument as the value stored for it.\<close>

fun optional_dict :: "pydict option \<Rightarrow> pyval" where
  "optional_dict None = PNone"
| "optional_dict (Some d) = PDict d"

section \<open>Conversation memory\<close>

text \<open>
  \<^verbatim>\<open>EnhancedConversationMemory\<close> (lines 67-84). The base class receives the generator;
  the subclass adds three fields. \<^verbatim>\<open>add_interaction\<close> prints two lines under
  \<^verbatim>\<open>DEBUG_MODE\<close> and appends one dictionary to \<^verbatim>\<open>self.tool_history\<close>. The entry
  stores \<^verbatim>\<open>self.system_configs\<close> by reference; nothing in the module writes to that
  dictionary afterwards, so the entry is modelled with its value. The function describes a
  call that completes: its two prints are output.
\<close>

record 'g EnhancedConversationMemory =
  mem_generator :: 'g
  tool_history :: "pyval list"
  user_data :: pydict
  system_configs :: pydict

definition EnhancedConversationMemory_init :: "'g \<Rightarrow> 'g EnhancedConversationMemory" where
  "EnhancedConversationMemory_init generator =
     \<lparr>mem_generator = generator, tool_history = [], user_data = [], system_configs = []\<rparr>"

definition interaction_entry :: "pydict \<Rightarrow> string \<Rightarrow> string \<Rightarrow> pydict option \<Rightarrow> pyval" where
  "interaction_entry configs query response metadata =
     PDict [(''query'', PStr query),
            (''response'', PStr response),
            (''metadata'', optional_dict metadata),
            (''system_config'', PDict configs)]"

definition add_interaction ::
  "'g EnhancedConversationMemory \<Rightarrow> string \<Rightarrow> string \<Rightarrow> pydict option
     \<Rightarrow> 'g EnhancedConversationMemory \<times> stdout" where
  "add_interaction self query response metadata =
     (self\<lparr>tool_history :=
         tool_history self @ [interaction_entry (system_configs self) query response metadata]\<rparr>,
      if DEBUG_MODE
      then [[Lit (''Query: '' @ query)], [Lit ''Metadata: '', Fmt (optional_dict metadata)]]
      else [])"

text \<open>A session's sequence of \<^verbatim>\<open>add_interaction\<close> calls, in call order.\<close>

fun add_interactions ::
  "'g EnhancedConversationMemory \<Rightarrow> (string \<times> string \<times> pydict option) list
     \<Rightarrow> 'g EnhancedConversationMemory" where
  "add_interactions self [] = self"
| "add_interactions self ((query, response, metadata) # calls) =
     add_interactions (fst (add_interaction self query response metadata)) calls"

section \<open>Tools manager\<close>

text \<open>
  \<^verbatim>\<open>EnhancedToolsManager\<close> (lines 112-134). The constructor hands the tool list to the
  base class and adds the debug flag and an empty execution history.
\<close>

record 't EnhancedToolsManager =
  tools :: "'t list"
  debug_mode :: bool
  tool_execution_history :: "pyval list"

definition EnhancedToolsManager_init :: "'t list \<Rightarrow> bool \<Rightarrow> 't EnhancedToolsManager" where
  "EnhancedToolsManager_init ts dbg =
     \<lparr>tools = ts, debug_mode = dbg, tool_execution_history = []\<rparr>"

text \<open>
  Modelled from the spec: the base class \<^verbatim>\<open>ToolsManager\<close> of
  \<^verbatim>\<open>fastrag.agents.base\<close>, whose \<^verbatim>\<open>execute_tool\<close> the subclass calls through
  \<^verbatim>\<open>super()\<close>, is not among the sources. After the specification's dispatcher (4.2):
  the registry maps a tool name to its capability; dispatch looks the name up, fails with
  \<open>UnknownToolError\<close> when it is absent, and otherwise invokes the capability with the
  keyword arguments, whose result or exception is the outcome.
\<close>

type_synonym capability = "pydict \<Rightarrow> exn + pyval"

type_synonym registry = "string \<rightharpoonup> capability"

definition ToolsManager_execute_tool :: "registry \<Rightarrow> string \<Rightarrow> pydict \<Rightarrow> exn + pyval" where
  "ToolsManager_execute_tool reg tool_name kwargs =
     (case reg tool_name of
        None \<Rightarrow> Inl (UnknownToolError tool_name)
      | Some invoke \<Rightarrow> invoke kwargs)"

text \<open>
  \<^verbatim>\<open>EnhancedToolsManager.execute_tool\<close> (lines 119-134), with the call
  \<^verbatim>\<open>super().execute_tool(tool_name, **kwargs)\<close> as the parameter \<open>super_execute_tool\<close>.
  The result is what the caller receives (the value returned or the exception raised), the
  manager afterwards, and the lines printed. The handler catches what derives from
  \<^verbatim>\<open>Exception\<close>; under the debug flag it evaluates \<^verbatim>\<open>str(e)\<close> and prints two lines
  before the bare \<^verbatim>\<open>raise\<close>, and the first of these calls that raises ends the handler
  with its own exception.
\<close>

definition execution_record :: "string \<Rightarrow> pydict \<Rightarrow> pyval \<Rightarrow> pyval" where
  "execution_record tool_name kwargs result =
     PDict [(''tool'', PStr tool_name),
            (''inputs'', PDict kwargs),
            (''result'', result),
            (''status'', PStr ''success'')]"

definition report_failure :: "console \<Rightarrow> exn \<Rightarrow> pydict \<Rightarrow> exn option \<times> stdout" where
  "report_failure io e kwargs =
     (case str_of_exception io e of
        Inl raised \<Rightarrow> (Some raised, [])
      | Inr message \<Rightarrow>
          (case print_line io [Lit (''Tool execution error: '' @ message)] of
             Some raised \<Rightarrow> (Some raised, [])
           | None \<Rightarrow>
               (case print_line io [Lit ''Tool inputs: '', Fmt (PDict kwargs)] of
                  Some raised \<Rightarrow> (Some raised, [[Lit (''Tool execution error: '' @ message)]])
                | None \<Rightarrow>
                    (None, [[Lit (''Tool execution error: '' @ message)],
                            [Lit ''Tool inputs: '', Fmt (PDict kwargs)]]))))"

definition execute_tool ::
  "console \<Rightarrow> (string \<Rightarrow> pydict \<Rightarrow> exn + pyval) \<Rightarrow> 't EnhancedToolsManager \<Rightarrow> string \<Rightarrow> pydict
     \<Rightarrow> (exn + pyval) \<times> 't EnhancedToolsManager \<times> stdout" where
  "execute_tool io super_execute_tool self tool_name kwargs =
     (case super_execute_tool tool_name kwargs of
        Inr result \<Rightarrow>
          (Inr result,
           self\<lparr>tool_execution_history :=
             tool_execution_history self @ [execution_record tool_name kwargs result]\<rparr>,
           [])
      | Inl e \<Rightarrow>
          if is_Exception e \<and> debug_mode self
          then (case report_failure io e kwargs of
                  (Some raised, printed) \<Rightarrow> (Inl raised, self, printed)
                | (None, printed) \<Rightarrow> (Inl e, self, printed))
          else (Inl e, self, []))"

text \<open>The keys of a dictionary value, and the values it stores.\<close>

fun dict_keys :: "pyval \<Rightarrow> string list" where
  "dict_keys (PDict d) = map fst d"
| "dict_keys _ = []"

fun dict_values :: "pyval \<Rightarrow> pyval list" where
  "dict_values (PDict d) = map snd d"
| "dict_values _ = []"

fun dict_get :: "pyval \<Rightarrow> string \<Rightarrow> pyval option" where
  "dict_get (PDict d) k = map_of d k"
| "dict_get _ k = None"

section \<open>Configuration values\<close>

text \<open>
  Sequencing of steps that may raise: the first exception ends the computation.
\<close>

definition and_then :: "exn + 'a \<Rightarrow> ('a \<Rightarrow> exn + 'b) \<Rightarrow> exn + 'b" where
  "and_then m f = (case m of Inl e \<Rightarrow> Inl e | Inr x \<Rightarrow> f x)"

text \<open>
  \<^verbatim>\<open>v[k]\<close> with a string key: only a dictionary accepts it (\<^verbatim>\<open>KeyError\<close> when the key
  is absent); a list, a string, an integer and \<^verbatim>\<open>None\<close> raise \<^verbatim>\<open>TypeError\<close>.
\<close>

fun getitem :: "pyval \<Rightarrow> string \<Rightarrow> exn + pyval" where
  "getitem (PDict d) k = (case map_of d k of None \<Rightarrow> Inl (KeyError (PStr k)) | Some v \<Rightarrow> Inr v)"
| "getitem _ k = Inl TypeError"

text \<open>\<^verbatim>\<open>k in v\<close> for a dictionary \<open>v\<close>.\<close>

fun has_key :: "pyval \<Rightarrow> string \<Rightarrow> bool" where
  "has_key (PDict d) k = (k \<in> set (map fst d))"
| "has_key _ k = False"

text \<open>
  \<^verbatim>\<open>for x in v\<close>: the elements of a list, the keys of a dictionary, the characters of a
  string; \<^verbatim>\<open>TypeError\<close> otherwise.
\<close>

fun iterate :: "pyval \<Rightarrow> exn + pyval list" where
  "iterate (PList xs) = Inr xs"
| "iterate (PDict d) = Inr (map (\<lambda>kv. PStr (fst kv)) d)"
| "iterate (PStr s) = Inr (map (\<lambda>c. PStr [c]) s)"
| "iterate _ = Inl TypeError"

text \<open>\<^verbatim>\<open>**v\<close> in a call needs a mapping.\<close>

fun as_kwargs :: "pyval \<Rightarrow> exn + pydict" where
  "as_kwargs (PDict d) = Inr d"
| "as_kwargs _ = Inl TypeError"

text \<open>Lists and dictionaries are not hashable: they cannot be dictionary keys.\<close>

fun hashable :: "pyval \<Rightarrow> bool" where
  "hashable (PList _) = False"
| "hashable (PDict _) = False"
| "hashable _ = True"

text \<open>
  \<^verbatim>\<open>d[k] = v\<close>: an existing key keeps its position and gets the new value, a new key is
  added at the end.
\<close>

fun dict_setitem :: "('k \<times> 'v) list \<Rightarrow> 'k \<Rightarrow> 'v \<Rightarrow> ('k \<times> 'v) list" where
  "dict_setitem [] k v = [(k, v)]"
| "dict_setitem ((k', v') # d) k v =
     (if k' = k then (k', v) # d else (k', v') # dict_setitem d k v)"

text \<open>\<^verbatim>\<open>s.split(".")\<close>; only a string has the method.\<close>

fun split_dot :: "string \<Rightarrow> string list" where
  "split_dot [] = [[]]"
| "split_dot (c # cs) =
     (if c = CHR ''.'' then [] # split_dot cs
      else (case split_dot cs of [] \<Rightarrow> [[c]] | p # ps \<Rightarrow> (c # p) # ps))"

fun str_split_dot :: "pyval \<Rightarrow> exn + string list" where
  "str_split_dot (PStr s) = Inr (split_dot s)"
| "str_split_dot _ = Inl AttributeError"

text \<open>Truth value of an optional string: \<^verbatim>\<open>None\<close> and the empty string are false.\<close>

fun truthy :: "string option \<Rightarrow> bool" where
  "truthy None = False"
| "truthy (Some s) = (s \<noteq> [])"

section \<open>The generator and its tokenizer\<close>

text \<open>
  The objects \<^verbatim>\<open>get_generator\<close> (lines 86-110) obtains from other packages: the module
  import and attribute lookup that resolve the generator class, the call of that class, the
  generator's \<^verbatim>\<open>warm_up\<close>, \<^verbatim>\<open>AutoTokenizer.from_pretrained\<close> and the two
  stopping-criteria constructors. Each is a parameter that returns an object or raises.
  Of a tokenizer the function reads and writes \<^verbatim>\<open>pad_token\<close> and reads
  \<^verbatim>\<open>eos_token\<close>; \<open>loaded_from\<close> stands for the rest of it.
\<close>

record tokenizer =
  loaded_from :: pyval
  pad_token :: "string option"
  eos_token :: "string option"

record ('obj, 'gen, 'sw, 'scl) runtime =
  import_module :: "string \<Rightarrow> exn + 'obj"
  getattr :: "'obj \<Rightarrow> string \<Rightarrow> exn + 'obj"
  call_class :: "'obj \<Rightarrow> pydict \<Rightarrow> exn + 'gen"
  warm_up :: "'gen \<Rightarrow> exn + 'gen"
  from_pretrained :: "pyval \<Rightarrow> exn + tokenizer"
  StopWordsByTextCriteria :: "tokenizer \<Rightarrow> string list \<Rightarrow> string \<Rightarrow> exn + 'sw"
  StoppingCriteriaList :: "'sw list \<Rightarrow> exn + 'scl"

fun getattrs :: "('obj \<Rightarrow> string \<Rightarrow> exn + 'obj) \<Rightarrow> 'obj \<Rightarrow> string list \<Rightarrow> exn + 'obj" where
  "getattrs ga current_module [] = Inr current_module"
| "getattrs ga current_module (part # parts) =
     and_then (ga current_module part) (\<lambda>m. getattrs ga m parts)"

text \<open>Lines 88-93: the generator class named by \<^verbatim>\<open>chat_model_config["generator_class"]\<close>.\<close>

definition resolve_generator_class ::
  "('obj, 'gen, 'sw, 'scl) runtime \<Rightarrow> pyval \<Rightarrow> exn + 'obj" where
  "resolve_generator_class env chat_model_config =
     and_then (getitem chat_model_config ''generator_class'') (\<lambda>class_path.
     and_then (str_split_dot class_path) (\<lambda>class_path_parts.
       (case class_path_parts of
          [] \<Rightarrow> Inl IndexError
        | first # rest \<Rightarrow>
            and_then (import_module env first) (\<lambda>current_module.
              getattrs (getattr env) current_module rest))))"

text \<open>Lines 95-97: the tokenizer, with its pad token filled in from the end-of-sequence token.\<close>

definition set_pad_token :: "tokenizer \<Rightarrow> tokenizer" where
  "set_pad_token tok =
     (if \<not> truthy (pad_token tok) then tok\<lparr>pad_token := eos_token tok\<rparr> else tok)"

definition load_tokenizer ::
  "('obj, 'gen, 'sw, 'scl) runtime \<Rightarrow> pyval \<Rightarrow> exn + tokenizer" where
  "load_tokenizer env chat_model_config =
     and_then (getitem chat_model_config ''generator_kwargs'') (\<lambda>generator_kwargs.
     and_then (getitem generator_kwargs ''model'') (\<lambda>model.
     and_then (from_pretrained env model) (\<lambda>tok. Inr (set_pad_token tok))))"

text \<open>Lines 99-101: the stop words and the criteria built from them.\<close>

definition stop_word_list :: "string list" where
  "stop_word_list = [''Observation:'', ''<|eot_id|>'', ''<|end|>'']"

definition build_stopping_criteria ::
  "('obj, 'gen, 'sw, 'scl) runtime \<Rightarrow> tokenizer \<Rightarrow> exn + 'scl" where
  "build_stopping_criteria env tok =
     and_then (StopWordsByTextCriteria env tok stop_word_list ''cpu'') (\<lambda>sw.
       StoppingCriteriaList env [sw])"

text \<open>Lines 107-110: the generator, warmed up, and the pair returned.\<close>

definition build_generator ::
  "('obj, 'gen, 'sw, 'scl) runtime \<Rightarrow> pyval \<Rightarrow> 'obj \<Rightarrow> tokenizer \<Rightarrow> exn + 'gen \<times> tokenizer" where
  "build_generator env chat_model_config generator_class tok =
     and_then (getitem chat_model_config ''generator_kwargs'') (\<lambda>generator_kwargs.
     and_then (as_kwargs generator_kwargs) (\<lambda>kwargs.
     and_then (call_class env generator_class kwargs) (\<lambda>generator.
     and_then (warm_up env generator) (\<lambda>generator'. Inr (generator', tok)))))"

text \<open>
  \<^verbatim>\<open>get_generator\<close>, in the order of its statements. The line printed under
  \<^verbatim>\<open>DEBUG_MODE\<close> comes after the stopping criteria and before the generator.
\<close>

definition get_generator ::
  "('obj, 'gen, 'sw, 'scl) runtime \<Rightarrow> pyval \<Rightarrow> (exn + 'gen \<times> tokenizer) \<times> stdout" where
  "get_generator env chat_model_config =
     (case resolve_generator_class env chat_model_config of
        Inl e \<Rightarrow> (Inl e, [])
      | Inr generator_class \<Rightarrow>
          (case load_tokenizer env chat_model_config of
             Inl e \<Rightarrow> (Inl e, [])
           | Inr tok \<Rightarrow>
               (case build_stopping_criteria env tok of
                  Inl e \<Rightarrow> (Inl e, [])
                | Inr stopping_criteria_list \<Rightarrow>
                    (build_generator env chat_model_config generator_class tok,
                     if DEBUG_MODE then [[Lit ''Model config: '', Fmt chat_model_config]]
                     else []))))"

section \<open>Loading the tools\<close>

text \<open>
  \<^verbatim>\<open>TOOLS_FACTORY\<close> of \<^verbatim>\<open>fastrag.agents.tools.tools\<close> maps a tool type to the class
  that builds the tool from its parameters; it is a parameter here. A key that is not a
  string is not in it; a key that is not hashable raises \<^verbatim>\<open>TypeError\<close>.
\<close>

type_synonym 't tools_factory = "string \<rightharpoonup> (pydict \<Rightarrow> exn + 't)"

fun factory_getitem :: "'t tools_factory \<Rightarrow> pyval \<Rightarrow> exn + (pydict \<Rightarrow> exn + 't)" where
  "factory_getitem F (PStr s) =
     (case F s of None \<Rightarrow> Inl (KeyError (PStr s)) | Some c \<Rightarrow> Inr c)"
| "factory_getitem F (PList xs) = Inl TypeError"
| "factory_getitem F (PDict d) = Inl TypeError"
| "factory_getitem F v = Inl (KeyError v)"

text \<open>
  The loop of lines 149-156 over the tool configurations, with \<^verbatim>\<open>tools_objects_map\<close>
  as accumulator.
\<close>

fun load_tools ::
  "'t tools_factory \<Rightarrow> pyval list \<Rightarrow> (pyval \<times> 't) list \<Rightarrow> exn + (pyval \<times> 't) list" where
  "load_tools F [] tools_objects_map = Inr tools_objects_map"
| "load_tools F (tool_config # rest) tools_objects_map =
     and_then (getitem tool_config ''type'') (\<lambda>tool_type.
     and_then (factory_getitem F tool_type) (\<lambda>tool_type_class.
     and_then (getitem tool_config ''params'') (\<lambda>params.
     and_then (as_kwargs params) (\<lambda>kwargs.
     and_then (tool_type_class kwargs) (\<lambda>tool_obj.
     and_then (getitem tool_config ''params'') (\<lambda>params'.
     and_then (getitem params' ''name'') (\<lambda>name.
       if hashable name
       then load_tools F rest (dict_setitem tools_objects_map name tool_obj)
       else Inl TypeError)))))))"

text \<open>
  \<^verbatim>\<open>get_basic_conversation_pipeline\<close> (lines 136-158) from the configuration that
  \<^verbatim>\<open>yaml.safe_load\<close> returned.
\<close>

definition load_configured_tools ::
  "'t tools_factory \<Rightarrow> pyval \<Rightarrow> exn + (pyval \<times> 't) list" where
  "load_configured_tools F conversation_config =
     (if has_key conversation_config ''tools''
      then and_then (getitem conversation_config ''tools'') (\<lambda>tool_configs.
           and_then (iterate tool_configs) (\<lambda>cs. load_tools F cs []))
      else Inr [])"

definition get_basic_conversation_pipeline ::
  "('obj, 'gen, 'sw, 'scl) runtime \<Rightarrow> 't tools_factory \<Rightarrow> pyval
     \<Rightarrow> (exn + 'gen \<times> tokenizer \<times> (pyval \<times> 't) list) \<times> stdout" where
  "get_basic_conversation_pipeline env F conversation_config =
     (let loaded = (if DEBUG_MODE then [[Lit ''Loaded config: '', Fmt conversation_config]]
                    else [])
      in case getitem conversation_config ''chat_model'' of
           Inl e \<Rightarrow> (Inl e, loaded)
         | Inr chat_model_config \<Rightarrow>
             (case get_generator env chat_model_config of
                (Inl e, printed) \<Rightarrow> (Inl e, loaded @ printed)
              | (Inr (generator, tok), printed) \<Rightarrow>
                  (and_then (load_configured_tools F conversation_config)
                     (\<lambda>tools_objects_map. Inr (generator, tok, tools_objects_map)),
                   loaded @ printed)))"

section \<open>Prompt templates\<close>

text \<open>
  The module's role templates (lines 15-65) are global lists of dictionaries with the keys
  \<^verbatim>\<open>role\<close> and \<^verbatim>\<open>content\<close>; \<^verbatim>\<open>AGENT_ROLES\<close> refers to both lists.
\<close>

record role_message =
  role :: string
  content :: string

record module_globals =
  AGENT_SYSTEM_ROLES :: "role_message list"
  AGENT_CONVERSATION_BASE_ROLES :: "role_message list"

definition AGENT_ROLES :: "module_globals \<Rightarrow> (string \<times> role_message list) list" where
  "AGENT_ROLES g =
     [(''system'', AGENT_SYSTEM_ROLES g), (''chat'', AGENT_CONVERSATION_BASE_ROLES g)]"

text \<open>
  The content of the system role (lines 18-50) is one literal; it is written here as the
  texts between its replacement fields and its pair of doubled braces, line by line.
\<close>

definition text_before_instructions :: string where
  \<open>text_before_instructions =
     ''You are designed to help with a variety of tasks, from answering questions to providing summaries to other types of analyses.\<newline>'' @
     ''\<newline>''\<close>

definition text_before_history :: string where
  \<open>text_before_history =
     ''\<newline>'' @
     ''\<newline>'' @
     ''## Tools\<newline>'' @
     ''\<newline>'' @
     ''You have access to a wide variety of tools. You are responsible for using the tools in any sequence you deem appropriate to complete the task at hand.\<newline>'' @
     ''This may require breaking the task into subtasks and using different tools to complete each subtask.\<newline>'' @
     ''\<newline>'' @
     ''Previous conversation context:\<newline>''\<close>

definition text_before_tools :: string where
  \<open>text_before_tools =
     ''\<newline>'' @
     ''\<newline>'' @
     ''You have access to the following tools:\<newline>''\<close>

definition text_before_example :: string where
  \<open>text_before_example =
     ''\<newline>'' @
     ''\<newline>'' @
     ''## Output Format\<newline>'' @
     ''\<newline>'' @
     ''If you lack information to answer, you MUST use a tool that can help you to get more information to answer the question, and use MUST use the following format:\<newline>'' @
     ''\<newline>'' @
     ''```\<newline>'' @
     ''Thought: I should use a tool to help me answer the question.\<newline>'' @
     ''Tool: [tool name if using a tool].\<newline>'' @
     ''Tool Input: [the input to the tool, in a JSON format representing the kwargs (e.g. ''\<close>

definition text_after_example :: string where
  \<open>text_after_example =
     '')].\<newline>'' @
     ''Observation: [tool response]\<newline>'' @
     ''```\<newline>'' @
     ''\<newline>'' @
     ''If you have enough information to answer the question without using any more tools, you MUST finish with "Final Answer:" and respond in the following format:\<newline>'' @
     ''\<newline>'' @
     ''```\<newline>'' @
     ''Thought: I can answer without using any more tools.\<newline>'' @
     ''Final Answer: [your answer here]\<newline>'' @
     ''```\<newline>''\<close>

definition system_role_content :: string where
  \<open>system_role_content =
     text_before_instructions @ ''{custom_system_instructions}'' @
     text_before_history @ ''{conversation_history}'' @
     text_before_tools @ ''{tool_names_with_descriptions}'' @
     text_before_example @ ''{{"input": "hello world"}}'' @
     text_after_example\<close>

definition chat_role_content :: string where
  \<open>chat_role_content =
     ''{query}\<newline>'' @
     ''Context: {context}\<newline>'' @
     ''Previous tools used: {tool_history}\<newline>'' @
     ''Thought: ''\<close>

definition initial_globals :: module_globals where
  "initial_globals =
     \<lparr>AGENT_SYSTEM_ROLES = [\<lparr>role = ''system'', content = system_role_content\<rparr>],
      AGENT_CONVERSATION_BASE_ROLES = [\<lparr>role = ''user'', content = chat_role_content\<rparr>]\<rparr>"

text \<open>
  \<^verbatim>\<open>template.format(**kw)\<close> with string values and no positional argument. The text
  is read from the left: \<^verbatim>\<open>{{\<close> and \<^verbatim>\<open>}}\<close> stand for one brace, a single
  \<^verbatim>\<open>}\<close> and a \<^verbatim>\<open>{\<close> that no \<^verbatim>\<open>}\<close> closes raise \<^verbatim>\<open>ValueError\<close>, and
  \<^verbatim>\<open>{field}\<close> is replaced. The name of a field ends at the first \<^verbatim>\<open>:\<close>, and the key
  looked up in \<open>kw\<close> ends at the first \<^verbatim>\<open>.\<close>: an empty or numeric key asks for a
  positional argument (\<^verbatim>\<open>IndexError\<close>), a key that is not supplied raises
  \<^verbatim>\<open>KeyError\<close>. Conversions, index access, nested fields, and a format specification or
  an attribute applied to a supplied value are outside the model.
\<close>

fun take_field :: "string \<Rightarrow> (string \<times> string) option" where
  "take_field [] = None"
| "take_field (c # cs) =
     (if c = CHR ''}'' then Some ([], cs)
      else (case take_field cs of None \<Rightarrow> None | Some (field, rest) \<Rightarrow> Some (c # field, rest)))"

definition all_digits :: "string \<Rightarrow> bool" where
  "all_digits s = list_all (\<lambda>c. c \<in> set ''0123456789'') s"

definition field_value :: "string \<Rightarrow> (string \<times> string) list \<Rightarrow> exn + string" where
  "field_value field kw =
     (let field_name = takeWhile (\<lambda>c. c \<noteq> CHR '':'') field;
          key = takeWhile (\<lambda>c. c \<noteq> CHR ''.'') field_name
      in if CHR ''!'' \<in> set field \<or> CHR ''['' \<in> set field then Inl OutsideFragment
         else if CHR ''{'' \<in> set field_name then Inl ValueError
         else if CHR ''{'' \<in> set field then Inl OutsideFragment
         else if key = [] \<or> all_digits key then Inl IndexError
         else (case map_of kw key of
                 None \<Rightarrow> Inl (KeyError (PStr key))
               | Some v \<Rightarrow> if field = key then Inr v else Inl OutsideFragment))"

definition prepend :: "string \<Rightarrow> exn + string \<Rightarrow> exn + string" where
  "prepend s m = (case m of Inl e \<Rightarrow> Inl e | Inr t \<Rightarrow> Inr (s @ t))"

function str_format :: "string \<Rightarrow> (string \<times> string) list \<Rightarrow> exn + string" where
  "str_format [] kw = Inr []"
| "str_format (c # cs) kw =
     (if c = CHR ''{'' then
        (case cs of
           [] \<Rightarrow> Inl ValueError
         | d # ds \<Rightarrow>
             if d = CHR ''{'' then prepend ''{'' (str_format ds kw)
             else (case take_field cs of
                     None \<Rightarrow> Inl ValueError
                   | Some (field, rest) \<Rightarrow>
                       (case field_value field kw of
                          Inl e \<Rightarrow> Inl e
                        | Inr v \<Rightarrow> prepend v (str_format rest kw))))
      else if c = CHR ''}'' then
        (case cs of
           [] \<Rightarrow> Inl ValueError
         | d # ds \<Rightarrow> if d = CHR ''}'' then prepend ''}'' (str_format ds kw) else Inl ValueError)
      else prepend [c] (str_format cs kw))"
  by pat_completeness auto

lemma take_field_shorter: "take_field cs = Some (field, rest) \<Longrightarrow> length rest < length cs"
  by (induction cs arbitrary: field) (auto split: if_splits option.splits)

termination str_format
  by (relation "measure (\<lambda>(s, kw). length s)")
     (auto dest!: take_field_shorter simp del: take_field.simps)

section \<open>The agent\<close>

text \<open>
  Lines 164-169: the content of the first system role is replaced by its own formatting with
  the custom instructions; the two other placeholders are filled with themselves.
\<close>

definition fill_system_role :: "module_globals \<Rightarrow> string \<Rightarrow> exn + module_globals" where
  "fill_system_role g custom_instructions =
     (case AGENT_SYSTEM_ROLES g of
        [] \<Rightarrow> Inl IndexError
      | m # ms \<Rightarrow>
          (case str_format (content m)
                  [(''custom_system_instructions'', custom_instructions),
                   (''conversation_history'', ''{conversation_history}''),
                   (''tool_names_with_descriptions'', ''{tool_names_with_descriptions}'')] of
             Inl e \<Rightarrow> Inl e
           | Inr s \<Rightarrow> Inr (g\<lparr>AGENT_SYSTEM_ROLES := m\<lparr>content := s\<rparr> # ms\<rparr>)))"

text \<open>
  The agent as the arguments its constructor receives (line 178); the class is defined in
  \<^verbatim>\<open>fastrag.agents.base\<close>. \<open>prompt_template\<close> refers to the global templates: it is
  their value when the pipeline returns.
\<close>

record ('gen, 't) Agent =
  agent_generator :: 'gen
  prompt_template :: "(string \<times> role_message list) list"
  memory :: "'gen EnhancedConversationMemory"
  tools_manager :: "'t EnhancedToolsManager"

text \<open>
  \<^verbatim>\<open>get_agent_conversation_pipeline\<close> (lines 160-185): the agent returned or the exception
  raised, the module's globals afterwards, and the lines printed.
\<close>

definition get_agent_conversation_pipeline ::
  "('obj, 'gen, 'sw, 'scl) runtime \<Rightarrow> 't tools_factory \<Rightarrow> module_globals \<Rightarrow> pyval
     \<Rightarrow> string option \<Rightarrow> (exn + ('gen, 't) Agent) \<times> module_globals \<times> stdout" where
  "get_agent_conversation_pipeline env F g conversation_config custom_instructions =
     (case get_basic_conversation_pipeline env F conversation_config of
        (Inl e, printed) \<Rightarrow> (Inl e, g, printed)
      | (Inr (generator, tok, tools_objects_map), printed) \<Rightarrow>
          (case (if truthy custom_instructions
                 then (case custom_instructions of
                         None \<Rightarrow> Inr g
                       | Some ci \<Rightarrow> fill_system_role g ci)
                 else Inr g) of
             Inl e \<Rightarrow> (Inl e, g, printed)
           | Inr g' \<Rightarrow>
               (Inr \<lparr>agent_generator = generator,
                     prompt_template = AGENT_ROLES g',
                     memory = EnhancedConversationMemory_init generator,
                     tools_manager = EnhancedToolsManager_init (map snd tools_objects_map) DEBUG_MODE\<rparr>,
                g', printed)))"

section \<open>A concrete runtime and configuration\<close>

text \<open>
  A runtime in which every external call returns: an imported object is the path that leads
  to it, a generator is the class and the keyword arguments it was built from, a tokenizer
  comes without a pad token, and the stopping criteria are the stop words they were given.
  \<open>failing_criteria_runtime\<close> differs in that the stop-words constructor raises.
\<close>

definition example_runtime ::
  "(string list, string list \<times> pydict, string list, string list list) runtime" where
  "example_runtime =
     \<lparr>import_module = (\<lambda>name. Inr [name]),
      getattr = (\<lambda>obj part. Inr (obj @ [part])),
      call_class = (\<lambda>cls kwargs. Inr (cls, kwargs)),
      warm_up = (\<lambda>generator. Inr generator),
      from_pretrained = (\<lambda>model. Inr \<lparr>loaded_from = model, pad_token = None,
                                         eos_token = Some ''<|eot_id|>''\<rparr>),
      StopWordsByTextCriteria = (\<lambda>tok stop_words device. Inr stop_words),
      StoppingCriteriaList = (\<lambda>criteria. Inr criteria)\<rparr>"

definition failing_criteria_runtime ::
  "(string list, string list \<times> pydict, string list, string list list) runtime" where
  "failing_criteria_runtime =
     example_runtime\<lparr>StopWordsByTextCriteria :=
       (\<lambda>tok stop_words device. Inl (OtherException ''no such device''))\<rparr>"

definition example_chat_model :: pyval where
  "example_chat_model =
     PDict [(''generator_class'', PStr ''fastrag.generators.llama.Generator''),
            (''generator_kwargs'', PDict [(''model'', PStr ''llama-3-8b''),
                                          (''max_new_tokens'', PInt 256)])]"

text \<open>A factory with one tool type, whose tools are the parameters they were built from.\<close>

definition doc_tool :: "pydict \<Rightarrow> exn + pydict" where
  "doc_tool params = Inr params"

definition example_factory :: "pydict tools_factory" where
  "example_factory = [''doc'' \<mapsto> doc_tool]"

definition first_search_tool :: pyval where
  "first_search_tool =
     PDict [(''type'', PStr ''doc''),
            (''params'', PDict [(''name'', PStr ''search''), (''description'', PStr ''first'')])]"

definition second_search_tool :: pyval where
  "second_search_tool =
     PDict [(''type'', PStr ''doc''),
            (''params'', PDict [(''name'', PStr ''search''), (''description'', PStr ''second'')])]"

definition example_config :: pyval where
  "example_config =
     PDict [(''chat_model'', example_chat_model),
            (''tools'', PList [first_search_tool, second_search_tool])]"

text \<open>Two capabilities: one returns, one raises.\<close>

definition calculator :: capability where
  "calculator kwargs = Inr (PStr ''4'')"

definition broken_calculator :: capability where
  "broken_calculator kwargs = Inl (OtherException ''division by zero'')"

definition example_registry :: registry where
  "example_registry = [''calculator'' \<mapsto> calculator, ''broken'' \<mapsto> broken_calculator]"

text \<open>
  A console on which every diagnostic call returns, and one whose standard output is
  closed, so that every \<^verbatim>\<open>print\<close> raises \<^verbatim>\<open>ValueError\<close>.
\<close>

definition working_console :: console where
  "working_console =
     \<lparr>str_of_exception = (\<lambda>e. case e of OtherException message \<Rightarrow> Inr message | _ \<Rightarrow> Inr []),
      print_line = (\<lambda>line. None)\<rparr>"

definition closed_console :: console where
  "closed_console = working_console\<lparr>print_line := (\<lambda>line. Some ValueError)\<rparr>"

text \<open>
  The tools manager as the pipeline builds it, the same without the debug flag, and the one
  after a successful dispatch.
\<close>

definition new_manager :: "pydict EnhancedToolsManager" where
  "new_manager = EnhancedToolsManager_init [] DEBUG_MODE"

definition quiet_manager :: "pydict EnhancedToolsManager" where
  "quiet_manager = EnhancedToolsManager_init [] False"

definition manager_after_success :: "pydict EnhancedToolsManager" where
  "manager_after_success =
     fst (snd (execute_tool working_console (ToolsManager_execute_tool example_registry)
                 new_manager ''calculator'' [(''expr'', PStr ''2+2'')]))"

text \<open>A first construction of the agent with custom instructions, from the module as loaded.\<close>

definition first_call ::
  "(exn + (string list \<times> pydict, pydict) Agent) \<times> module_globals \<times> stdout" where
  "first_call =
     get_agent_conversation_pipeline example_runtime example_factory initial_globals
       example_config (Some ''Be brief.'')"

text \<open>
  The content of the system role with custom instructions in the place of their field, the
  two other fields as they were and single braces around the example.
\<close>

definition system_role_content_with :: "string \<Rightarrow> string" where
  \<open>system_role_content_with custom_instructions =
     text_before_instructions @ custom_instructions @
     text_before_history @ ''{conversation_history}'' @
     text_before_tools @ ''{tool_names_with_descriptions}'' @
     text_before_example @ ''{"input": "hello world"}'' @
     text_after_example\<close>

section \<open>Auxiliary facts\<close>

subsection \<open>Conversation memory\<close>

lemma add_interaction_history:
  "tool_history (fst (add_interaction self q r m)) =
     tool_history self @ [interaction_entry (system_configs self) q r m]"
  by (simp add: add_interaction_def)

lemma add_interaction_configs:
  "system_configs (fst (add_interaction self q r m)) = system_configs self"
  by (simp add: add_interaction_def)

lemma add_interactions_configs:
  "system_configs (add_interactions self calls) = system_configs self"
  by (induction calls arbitrary: self) (auto simp: add_interaction_configs)

lemma add_interactions_history:
  "tool_history (add_interactions self calls) =
     tool_history self @
       map (\<lambda>(q, r, m). interaction_entry (system_configs self) q r m) calls"
  by (induction calls arbitrary: self)
     (auto simp: add_interaction_history add_interaction_configs)

subsection \<open>Dispatch\<close>

lemma execute_tool_raises:
  "super_execute_tool n kw = Inl e \<Longrightarrow>
     fst (snd (execute_tool io super_execute_tool self n kw)) = self \<and>
     isl (fst (execute_tool io super_execute_tool self n kw))"
  by (simp add: execute_tool_def split: prod.splits option.splits)

lemma execute_tool_raises_quiet:
  "super_execute_tool n kw = Inl e \<Longrightarrow> \<not> debug_mode self \<or> \<not> is_Exception e \<Longrightarrow>
     execute_tool io super_execute_tool self n kw = (Inl e, self, [])"
  by (auto simp: execute_tool_def)

lemma report_failure_printed:
  "str_of_exception io e = Inr message \<Longrightarrow>
   print_line io [Lit (''Tool execution error: '' @ message)] = None \<Longrightarrow>
   print_line io [Lit ''Tool inputs: '', Fmt (PDict kw)] = None \<Longrightarrow>
     report_failure io e kw =
       (None, [[Lit (''Tool execution error: '' @ message)], [Lit ''Tool inputs: '', Fmt (PDict kw)]])"
  by (simp add: report_failure_def)

lemma execute_tool_raises_reported:
  "super_execute_tool n kw = Inl e \<Longrightarrow> debug_mode self \<Longrightarrow> is_Exception e \<Longrightarrow>
   report_failure io e kw = (None, printed) \<Longrightarrow>
     execute_tool io super_execute_tool self n kw = (Inl e, self, printed)"
  by (simp add: execute_tool_def)

lemma execute_tool_returns:
  "super_execute_tool n kw = Inr r \<Longrightarrow>
     execute_tool io super_execute_tool self n kw =
       (Inr r,
        self\<lparr>tool_execution_history :=
          tool_execution_history self @ [execution_record n kw r]\<rparr>,
        [])"
  by (simp add: execute_tool_def)

lemma report_broken_working:
  "report_failure working_console (OtherException ''division by zero'') kw =
     (None, [[Lit ''Tool execution error: division by zero''],
             [Lit ''Tool inputs: '', Fmt (PDict kw)]])"
  by (simp add: report_failure_def working_console_def)

lemma report_broken_closed:
  "report_failure closed_console (OtherException ''division by zero'') kw = (Some ValueError, [])"
  by (simp add: report_failure_def closed_console_def working_console_def)

lemma debug_mode_managers:
  "debug_mode new_manager" "\<not> debug_mode quiet_manager" "debug_mode manager_after_success"
  "tool_execution_history new_manager = []" "tool_execution_history quiet_manager = []"
  by (simp_all add: new_manager_def quiet_manager_def manager_after_success_def
      EnhancedToolsManager_init_def DEBUG_MODE_def execute_tool_def
      ToolsManager_execute_tool_def example_registry_def calculator_def)

lemma dispatch_calculator:
  "ToolsManager_execute_tool example_registry ''calculator'' kw = Inr (PStr ''4'')"
  by (simp add: ToolsManager_execute_tool_def example_registry_def calculator_def)

lemma dispatch_broken:
  "ToolsManager_execute_tool example_registry ''broken'' kw =
     Inl (OtherException ''division by zero'')"
  by (simp add: ToolsManager_execute_tool_def example_registry_def broken_calculator_def)

lemma manager_after_success_history:
  "tool_execution_history manager_after_success =
     [execution_record ''calculator'' [(''expr'', PStr ''2+2'')] (PStr ''4'')]"
  by (simp add: manager_after_success_def execute_tool_def dispatch_calculator
      new_manager_def EnhancedToolsManager_init_def)

subsection \<open>Formatting\<close>

lemma prepend_simps:
  "prepend s (Inr t) = Inr (s @ t)"
  "prepend s (Inl e) = Inl e"
  by (simp_all add: prepend_def)

lemma prepend_prepend: "prepend s (prepend t m) = prepend (s @ t) m"
  by (cases m) (simp_all add: prepend_def)

text \<open>Text without braces is copied.\<close>

lemma str_format_text:
  "CHR ''{'' \<notin> set p \<Longrightarrow> CHR ''}'' \<notin> set p \<Longrightarrow>
     str_format (p @ rest) kw = prepend p (str_format rest kw)"
proof (induction p)
  case Nil
  show ?case by (cases "str_format rest kw") (simp_all add: prepend_def)
next
  case (Cons c p)
  then have c: "c \<noteq> CHR ''{''" "c \<noteq> CHR ''}''"
    by auto
  from Cons.prems have "CHR ''{'' \<notin> set p" "CHR ''}'' \<notin> set p"
    by auto
  then have "str_format (p @ rest) kw = prepend p (str_format rest kw)"
    by (rule Cons.IH)
  with c show ?case
    by (simp add: prepend_prepend)
qed

lemma str_format_text_end:
  "CHR ''{'' \<notin> set p \<Longrightarrow> CHR ''}'' \<notin> set p \<Longrightarrow> str_format p kw = Inr p"
  using str_format_text [of p "[]" kw] by (simp add: prepend_simps)

lemma plain_texts:
  "CHR ''{'' \<notin> set text_before_instructions" "CHR ''}'' \<notin> set text_before_instructions"
  "CHR ''{'' \<notin> set text_before_history" "CHR ''}'' \<notin> set text_before_history"
  "CHR ''{'' \<notin> set text_before_tools" "CHR ''}'' \<notin> set text_before_tools"
  "CHR ''{'' \<notin> set text_before_example" "CHR ''}'' \<notin> set text_before_example"
  "CHR ''{'' \<notin> set text_after_example" "CHR ''}'' \<notin> set text_after_example"
  by (simp_all add: text_before_instructions_def text_before_history_def text_before_tools_def
      text_before_example_def text_after_example_def)

text \<open>The first formatting of the system role, for any custom instructions.\<close>

lemma format_system_role_content:
  "str_format system_role_content
     [(''custom_system_instructions'', ci),
      (''conversation_history'', ''{conversation_history}''),
      (''tool_names_with_descriptions'', ''{tool_names_with_descriptions}'')] =
   Inr (system_role_content_with ci)"
  by (simp add: system_role_content_def system_role_content_with_def str_format_text
      str_format_text_end plain_texts field_value_def all_digits_def prepend_simps)

text \<open>
  Formatting the result again: the example's braces are single now and open a field whose
  name is not a supplied key.
\<close>

lemma format_filled_again:
  \<open>CHR ''{'' \<notin> set ci \<Longrightarrow> CHR ''}'' \<notin> set ci \<Longrightarrow>
   str_format (system_role_content_with ci)
     [(''custom_system_instructions'', ci'),
      (''conversation_history'', ''{conversation_history}''),
      (''tool_names_with_descriptions'', ''{tool_names_with_descriptions}'')] =
   Inl (KeyError (PStr ''"input"''))\<close>
  by (simp add: system_role_content_with_def str_format_text plain_texts field_value_def
      all_digits_def prepend_simps)

lemma fill_system_role_initial:
  "fill_system_role initial_globals ci =
     Inr (initial_globals\<lparr>AGENT_SYSTEM_ROLES :=
            [\<lparr>role = ''system'', content = system_role_content_with ci\<rparr>]\<rparr>)"
  by (simp add: fill_system_role_def initial_globals_def format_system_role_content)

lemma content_with_differs: "system_role_content_with ''Be brief.'' \<noteq> system_role_content"
  by (simp add: system_role_content_with_def system_role_content_def)

subsection \<open>The concrete runtime\<close>

lemma example_generator:
  "get_generator example_runtime example_chat_model =
     (Inr (([''fastrag'', ''generators'', ''llama'', ''Generator''],
            [(''model'', PStr ''llama-3-8b''), (''max_new_tokens'', PInt 256)]),
           \<lparr>loaded_from = PStr ''llama-3-8b'', pad_token = Some ''<|eot_id|>'',
              eos_token = Some ''<|eot_id|>''\<rparr>),
      [[Lit ''Model config: '', Fmt example_chat_model]])"
  by (simp add: get_generator_def resolve_generator_class_def load_tokenizer_def
      build_stopping_criteria_def build_generator_def example_runtime_def
      example_chat_model_def and_then_def set_pad_token_def stop_word_list_def DEBUG_MODE_def)

lemma example_basic_pipeline:
  "fst (get_basic_conversation_pipeline example_runtime example_factory example_config) =
     Inr (([''fastrag'', ''generators'', ''llama'', ''Generator''],
           [(''model'', PStr ''llama-3-8b''), (''max_new_tokens'', PInt 256)]),
          \<lparr>loaded_from = PStr ''llama-3-8b'', pad_token = Some ''<|eot_id|>'',
             eos_token = Some ''<|eot_id|>''\<rparr>,
          [(PStr ''search'', [(''name'', PStr ''search''), (''description'', PStr ''second'')])])"
proof -
  have chat: "getitem example_config ''chat_model'' = Inr example_chat_model"
    by (simp add: example_config_def)
  have loaded: "load_configured_tools example_factory example_config =
      Inr [(PStr ''search'', [(''name'', PStr ''search''), (''description'', PStr ''second'')])]"
    by (simp add: load_configured_tools_def example_config_def first_search_tool_def
        second_search_tool_def example_factory_def doc_tool_def and_then_def)
  show ?thesis
    by (simp add: get_basic_conversation_pipeline_def chat example_generator loaded
        and_then_def Let_def)
qed

lemma first_call_globals:
  "fst (snd first_call) =
     initial_globals\<lparr>AGENT_SYSTEM_ROLES :=
       [\<lparr>role = ''system'', content = system_role_content_with ''Be brief.''\<rparr>]\<rparr>"
proof -
  obtain printed where
    "get_basic_conversation_pipeline example_runtime example_factory example_config =
       (Inr (([''fastrag'', ''generators'', ''llama'', ''Generator''],
              [(''model'', PStr ''llama-3-8b''), (''max_new_tokens'', PInt 256)]),
             \<lparr>loaded_from = PStr ''llama-3-8b'', pad_token = Some ''<|eot_id|>'',
                eos_token = Some ''<|eot_id|>''\<rparr>,
             [(PStr ''search'',
               [(''name'', PStr ''search''), (''description'', PStr ''second'')])]),
        printed)"
    using example_basic_pipeline
    by (cases "get_basic_conversation_pipeline example_runtime example_factory example_config")
       simp
  then show ?thesis
    by (simp add: first_call_def get_agent_conversation_pipeline_def fill_system_role_initial)
qed

subsection \<open>The generator\<close>

lemma resolve_ignores_criteria:
  "resolve_generator_class (env\<lparr>StopWordsByTextCriteria := f, StoppingCriteriaList := h\<rparr>) config =
     resolve_generator_class env config"
  by (simp add: resolve_generator_class_def cong: list.case_cong)

lemma load_tokenizer_ignores_criteria:
  "load_tokenizer (env\<lparr>StopWordsByTextCriteria := f, StoppingCriteriaList := h\<rparr>) config =
     load_tokenizer env config"
  by (simp add: load_tokenizer_def)

lemma build_generator_ignores_criteria:
  "build_generator (env\<lparr>StopWordsByTextCriteria := f, StoppingCriteriaList := h\<rparr>) config cls tok =
     build_generator env config cls tok"
  by (simp add: build_generator_def)

lemma get_generator_constant_criteria:
  "get_generator (env\<lparr>StopWordsByTextCriteria := \<lambda>tok stop_words device. Inr sw,
                       StoppingCriteriaList := \<lambda>criteria. Inr scl\<rparr>) config =
     (case resolve_generator_class env config of
        Inl e \<Rightarrow> (Inl e, [])
      | Inr cls \<Rightarrow>
          (case load_tokenizer env config of
             Inl e \<Rightarrow> (Inl e, [])
           | Inr tok \<Rightarrow>
               (build_generator env config cls tok,
                if DEBUG_MODE then [[Lit ''Model config: '', Fmt config]] else [])))"
  by (simp add: get_generator_def resolve_ignores_criteria load_tokenizer_ignores_criteria
      build_generator_ignores_criteria build_stopping_criteria_def and_then_def
      split: sum.splits)

section \<open>The claims\<close>

subsection \<open>Dispatch that raises\<close>

text \<open>
  C1 (as amended). When the dispatch of the base class raises, whether the tool is unknown
  or its capability failed, \<^verbatim>\<open>execute_tool\<close> appends no record: the manager, and with it
  the execution history, is as it was, and an exception reaches the caller. It is the
  exception of the dispatch, with nothing printed, when the debug flag is unset or the
  exception does not derive from \<^verbatim>\<open>Exception\<close>; and it is the exception of the dispatch,
  after the two diagnostic lines, when the flag is set and \<^verbatim>\<open>str(e)\<close> and both prints
  return.
\<close>

theorem execute_tool_failure_not_recorded:
  "super_execute_tool tool_name kwargs = Inl e \<Longrightarrow>
     fst (snd (execute_tool io super_execute_tool self tool_name kwargs)) = self \<and>
     isl (fst (execute_tool io super_execute_tool self tool_name kwargs)) \<and>
     (\<not> debug_mode self \<or> \<not> is_Exception e \<longrightarrow>
        execute_tool io super_execute_tool self tool_name kwargs = (Inl e, self, [])) \<and>
     (debug_mode self \<longrightarrow> is_Exception e \<longrightarrow>
      str_of_exception io e = Inr message \<longrightarrow>
      print_line io [Lit (''Tool execution error: '' @ message)] = None \<longrightarrow>
      print_line io [Lit ''Tool inputs: '', Fmt (PDict kwargs)] = None \<longrightarrow>
        execute_tool io super_execute_tool self tool_name kwargs =
          (Inl e, self,
           [[Lit (''Tool execution error: '' @ message)],
            [Lit ''Tool inputs: '', Fmt (PDict kwargs)]]))"
proof -
  assume raised: "super_execute_tool tool_name kwargs = Inl e"
  have kept: "fst (snd (execute_tool io super_execute_tool self tool_name kwargs)) = self \<and>
      isl (fst (execute_tool io super_execute_tool self tool_name kwargs))"
    using raised by (rule execute_tool_raises)
  have quiet: "\<not> debug_mode self \<or> \<not> is_Exception e \<longrightarrow>
      execute_tool io super_execute_tool self tool_name kwargs = (Inl e, self, [])"
    using raised by (simp add: execute_tool_raises_quiet)
  have reported: "debug_mode self \<longrightarrow> is_Exception e \<longrightarrow>
      str_of_exception io e = Inr message \<longrightarrow>
      print_line io [Lit (''Tool execution error: '' @ message)] = None \<longrightarrow>
      print_line io [Lit ''Tool inputs: '', Fmt (PDict kwargs)] = None \<longrightarrow>
        execute_tool io super_execute_tool self tool_name kwargs =
          (Inl e, self,
           [[Lit (''Tool execution error: '' @ message)],
            [Lit ''Tool inputs: '', Fmt (PDict kwargs)]])"
    using raised by (simp add: execute_tool_raises_reported report_failure_printed)
  from kept quiet reported show ?thesis
    by blast
qed

theorem execute_tool_failure_not_recorded_witness:
  "execute_tool working_console (ToolsManager_execute_tool example_registry)
     manager_after_success ''broken'' [(''expr'', PStr ''1/0'')] =
     (Inl (OtherException ''division by zero''), manager_after_success,
      [[Lit ''Tool execution error: division by zero''],
       [Lit ''Tool inputs: '', Fmt (PDict [(''expr'', PStr ''1/0'')])]]) \<and>
   execute_tool working_console (ToolsManager_execute_tool example_registry)
     quiet_manager ''broken'' [(''expr'', PStr ''1/0'')] =
     (Inl (OtherException ''division by zero''), quiet_manager, [])"
proof -
  have raised: "ToolsManager_execute_tool example_registry ''broken'' [(''expr'', PStr ''1/0'')] =
      Inl (OtherException ''division by zero'')"
    by (rule dispatch_broken)
  have message: "str_of_exception working_console (OtherException ''division by zero'') =
      Inr ''division by zero''"
    and printed: "print_line working_console [Lit (''Tool execution error: '' @ ''division by zero'')]
      = None"
      "print_line working_console [Lit ''Tool inputs: '', Fmt (PDict [(''expr'', PStr ''1/0'')])]
      = None"
    by (simp_all add: working_console_def)
  have loud: "execute_tool working_console (ToolsManager_execute_tool example_registry)
      manager_after_success ''broken'' [(''expr'', PStr ''1/0'')] =
      (Inl (OtherException ''division by zero''), manager_after_success,
       [[Lit (''Tool execution error: '' @ ''division by zero'')],
        [Lit ''Tool inputs: '', Fmt (PDict [(''expr'', PStr ''1/0'')])]])"
    using execute_tool_failure_not_recorded
            [where io = working_console and self = manager_after_success
               and super_execute_tool = "ToolsManager_execute_tool example_registry"
               and message = "''division by zero''", OF raised]
          message printed debug_mode_managers(3)
    by simp
  have quiet: "execute_tool working_console (ToolsManager_execute_tool example_registry)
      quiet_manager ''broken'' [(''expr'', PStr ''1/0'')] =
      (Inl (OtherException ''division by zero''), quiet_manager, [])"
    using execute_tool_failure_not_recorded
            [where io = working_console and self = quiet_manager
               and super_execute_tool = "ToolsManager_execute_tool example_registry", OF raised]
          debug_mode_managers(2)
    by simp
  from loud quiet show ?thesis
    by simp
qed

text \<open>
  The claim as stated fails: the registered tool \<open>broken\<close> raises, the caller receives the
  exception, and the history of the new manager is still empty; no failure record exists.
\<close>

theorem failure_record_counterexample:
  "example_registry ''broken'' = Some broken_calculator \<and>
   fst (execute_tool working_console (ToolsManager_execute_tool example_registry) new_manager
          ''broken'' [(''expr'', PStr ''1/0'')]) = Inl (OtherException ''division by zero'') \<and>
   tool_execution_history
     (fst (snd (execute_tool working_console (ToolsManager_execute_tool example_registry)
                  new_manager ''broken'' [(''expr'', PStr ''1/0'')]))) = []"
proof -
  have registered: "example_registry ''broken'' = Some broken_calculator"
    by (simp add: example_registry_def)
  have "execute_tool working_console (ToolsManager_execute_tool example_registry) new_manager
          ''broken'' [(''expr'', PStr ''1/0'')] =
        (Inl (OtherException ''division by zero''), new_manager,
         [[Lit ''Tool execution error: division by zero''],
          [Lit ''Tool inputs: '', Fmt (PDict [(''expr'', PStr ''1/0'')])]])"
    by (simp add: execute_tool_def dispatch_broken report_broken_working debug_mode_managers)
  with registered show ?thesis
    by (simp add: debug_mode_managers)
qed

subsection \<open>Template substitution\<close>

text \<open>
  C2 (as amended). Building the agent without custom instructions, or with the empty string,
  leaves the role templates as they were. The first building with non-empty custom
  instructions, from the module as loaded, replaces the content of the system role in
  place: the new content is the text of the template up to its example of a tool input,
  with the instructions where their field was and the fields of the conversation history
  and of the tool descriptions kept, followed by a remainder; the chat role is as it was.
\<close>

theorem pipeline_template_effect:
  "fst (snd (get_agent_conversation_pipeline env F g config None)) = g \<and>
   fst (snd (get_agent_conversation_pipeline env F g config (Some ''''))) = g \<and>
   (fst (get_basic_conversation_pipeline env F config) = Inr basic \<longrightarrow> ci \<noteq> [] \<longrightarrow>
      (\<exists>remainder.
         fst (snd (get_agent_conversation_pipeline env F initial_globals config (Some ci))) =
           initial_globals\<lparr>AGENT_SYSTEM_ROLES :=
             [\<lparr>role = ''system'',
               content =
                 text_before_instructions @ ci @
                 text_before_history @ ''{conversation_history}'' @
                 text_before_tools @ ''{tool_names_with_descriptions}'' @
                 text_before_example @ remainder\<rparr>]\<rparr>))"
proof (intro conjI impI)
  show "fst (snd (get_agent_conversation_pipeline env F g config None)) = g"
    by (simp add: get_agent_conversation_pipeline_def split: prod.splits sum.splits)
  show "fst (snd (get_agent_conversation_pipeline env F g config (Some ''''))) = g"
    by (simp add: get_agent_conversation_pipeline_def split: prod.splits sum.splits)
next
  assume ok: "fst (get_basic_conversation_pipeline env F config) = Inr basic" and ci: "ci \<noteq> []"
  obtain generator tok tools_objects_map where "basic = (generator, tok, tools_objects_map)"
    by (cases basic)
  with ok obtain printed where
    "get_basic_conversation_pipeline env F config =
       (Inr (generator, tok, tools_objects_map), printed)"
    by (cases "get_basic_conversation_pipeline env F config") simp
  with ci have
    "fst (snd (get_agent_conversation_pipeline env F initial_globals config (Some ci))) =
       initial_globals\<lparr>AGENT_SYSTEM_ROLES :=
         [\<lparr>role = ''system'', content = system_role_content_with ci\<rparr>]\<rparr>"
    by (simp add: get_agent_conversation_pipeline_def fill_system_role_initial)
  then show "\<exists>remainder.
         fst (snd (get_agent_conversation_pipeline env F initial_globals config (Some ci))) =
           initial_globals\<lparr>AGENT_SYSTEM_ROLES :=
             [\<lparr>role = ''system'',
               content =
                 text_before_instructions @ ci @
                 text_before_history @ ''{conversation_history}'' @
                 text_before_tools @ ''{tool_names_with_descriptions}'' @
                 text_before_example @ remainder\<rparr>]\<rparr>"
    unfolding system_role_content_with_def
    by (rule exI [where x = \<open>''{"input": "hello world"}'' @ text_after_example\<close>])
qed

theorem pipeline_template_effect_witness:
  "''Be brief.'' \<noteq> [] \<and>
   (\<exists>remainder.
      fst (snd (get_agent_conversation_pipeline example_runtime example_factory initial_globals
                  example_config (Some ''Be brief.''))) =
        initial_globals\<lparr>AGENT_SYSTEM_ROLES :=
          [\<lparr>role = ''system'',
            content =
              text_before_instructions @ ''Be brief.'' @
              text_before_history @ ''{conversation_history}'' @
              text_before_tools @ ''{tool_names_with_descriptions}'' @
              text_before_example @ remainder\<rparr>]\<rparr>)"
proof -
  have ci: "''Be brief.'' \<noteq> []"
    by simp
  from pipeline_template_effect
         [of example_runtime example_factory initial_globals example_config _ "''Be brief.''"]
       example_basic_pipeline ci
  show ?thesis by blast
qed

text \<open>
  The claim as stated fails. The first construction with custom instructions returns an
  agent and changes the global system role; the same construction repeated on the changed
  module raises \<^verbatim>\<open>KeyError\<close>, so its result depends on the earlier invocation.
\<close>

theorem template_side_effect_counterexample:
  \<open>\<not> isl (fst first_call) \<and>
   fst (snd first_call) \<noteq> initial_globals \<and>
   fst (get_agent_conversation_pipeline example_runtime example_factory (fst (snd first_call))
          example_config (Some ''Be brief.'')) = Inl (KeyError (PStr ''"input"''))\<close>
proof -
  obtain printed where basic:
    "get_basic_conversation_pipeline example_runtime example_factory example_config =
       (Inr (([''fastrag'', ''generators'', ''llama'', ''Generator''],
              [(''model'', PStr ''llama-3-8b''), (''max_new_tokens'', PInt 256)]),
             \<lparr>loaded_from = PStr ''llama-3-8b'', pad_token = Some ''<|eot_id|>'',
                eos_token = Some ''<|eot_id|>''\<rparr>,
             [(PStr ''search'',
               [(''name'', PStr ''search''), (''description'', PStr ''second'')])]),
        printed)"
    using example_basic_pipeline
    by (cases "get_basic_conversation_pipeline example_runtime example_factory example_config")
       simp
  have returned: "\<not> isl (fst first_call)"
    by (simp add: first_call_def get_agent_conversation_pipeline_def basic
        fill_system_role_initial)
  have changed: "fst (snd first_call) \<noteq> initial_globals"
    by (simp add: first_call_globals initial_globals_def content_with_differs)
  have again: "fill_system_role (fst (snd first_call)) ''Be brief.'' =
      Inl (KeyError (PStr ''\"input\"''))"
    by (simp add: first_call_globals fill_system_role_def initial_globals_def
        format_filled_again)
  have second: "fst (get_agent_conversation_pipeline example_runtime example_factory
      (fst (snd first_call)) example_config (Some ''Be brief.'')) =
      Inl (KeyError (PStr ''\"input\"''))"
    by (simp add: get_agent_conversation_pipeline_def basic again)
  from returned changed second show ?thesis
    by simp
qed

subsection \<open>What a conversation turn holds\<close>

text \<open>
  C3 (as amended). \<^verbatim>\<open>add_interaction(query, response, metadata)\<close> appends one entry to
  the memory's list and changes nothing else; the entry holds the query, the response, the
  metadata and the memory's \<^verbatim>\<open>system_configs\<close> mapping. It holds no tool-call history.
\<close>

theorem add_interaction_entry:
  "fst (add_interaction self query response metadata) =
     self\<lparr>tool_history := tool_history self @
       [PDict [(''query'', PStr query),
               (''response'', PStr response),
               (''metadata'', optional_dict metadata),
               (''system_config'', PDict (system_configs self))]]\<rparr>"
  by (simp add: add_interaction_def interaction_entry_def)

text \<open>
  The claim as stated fails: after one successful tool call in the session, the turn that
  \<^verbatim>\<open>add_interaction\<close> appends has the four keys below, and none of its values is the
  execution history accumulated so far.
\<close>

theorem turn_without_tool_calls_counterexample:
  "tool_execution_history manager_after_success =
     [execution_record ''calculator'' [(''expr'', PStr ''2+2'')] (PStr ''4'')] \<and>
   dict_keys (last (tool_history (fst (add_interaction
       (EnhancedConversationMemory_init ()) ''What is 2+2?'' ''4'' None)))) =
     [''query'', ''response'', ''metadata'', ''system_config''] \<and>
   PList (tool_execution_history manager_after_success) \<notin>
     set (dict_values (last (tool_history (fst (add_interaction
       (EnhancedConversationMemory_init ()) ''What is 2+2?'' ''4'' None)))))"
  by (simp add: manager_after_success_history add_interaction_def interaction_entry_def
      EnhancedConversationMemory_init_def)

subsection \<open>Dispatch that returns\<close>

text \<open>
  C4 (as amended). When the dispatch of the base class returns a result, \<^verbatim>\<open>execute_tool\<close>
  returns that result and appends exactly one record to the history: the tool name, the
  inputs, the result and the status \<^verbatim>\<open>success\<close>. The record has no timestamp.
\<close>

theorem execute_tool_success_record:
  "super_execute_tool tool_name kwargs = Inr result \<Longrightarrow>
     fst (execute_tool io super_execute_tool self tool_name kwargs) = Inr result \<and>
     tool_execution_history
       (fst (snd (execute_tool io super_execute_tool self tool_name kwargs))) =
       tool_execution_history self @
         [PDict [(''tool'', PStr tool_name),
                 (''inputs'', PDict kwargs),
                 (''result'', result),
                 (''status'', PStr ''success'')]]"
  by (simp add: execute_tool_returns execution_record_def)

theorem execute_tool_success_record_witness:
  "ToolsManager_execute_tool example_registry ''calculator'' [(''expr'', PStr ''2+2'')] =
     Inr (PStr ''4'') \<and>
   fst (execute_tool working_console (ToolsManager_execute_tool example_registry) new_manager
          ''calculator'' [(''expr'', PStr ''2+2'')]) = Inr (PStr ''4'') \<and>
   tool_execution_history
     (fst (snd (execute_tool working_console (ToolsManager_execute_tool example_registry)
                  new_manager ''calculator'' [(''expr'', PStr ''2+2'')]))) =
     [PDict [(''tool'', PStr ''calculator''),
             (''inputs'', PDict [(''expr'', PStr ''2+2'')]),
             (''result'', PStr ''4''),
             (''status'', PStr ''success'')]]"
proof -
  have returned:
    "ToolsManager_execute_tool example_registry ''calculator'' [(''expr'', PStr ''2+2'')] =
       Inr (PStr ''4'')"
    by (rule dispatch_calculator)
  have empty: "tool_execution_history new_manager = []"
    by (simp add: new_manager_def EnhancedToolsManager_init_def)
  from execute_tool_success_record
         [where io = working_console and self = new_manager
            and super_execute_tool = "ToolsManager_execute_tool example_registry",
          OF returned]
       returned empty
  show ?thesis by simp
qed

text \<open>
  The claim as stated fails: the record of a successful dispatch has four keys, and
  \<^verbatim>\<open>timestamp\<close> is not one of them.
\<close>

theorem record_timestamp_counterexample:
  "dict_keys (last (tool_execution_history manager_after_success)) =
     [''tool'', ''inputs'', ''result'', ''status''] \<and>
   dict_get (last (tool_execution_history manager_after_success)) ''timestamp'' = None"
  by (simp add: manager_after_success_history execution_record_def)

subsection \<open>When a record is created\<close>

text \<open>
  C5 (as amended). \<^verbatim>\<open>execute_tool\<close> appends a record exactly when the dispatch of the
  base class returns. With the dispatcher of the specification underneath, that is when the
  name is registered and its capability returns: an unregistered name appends nothing, and
  neither does a registered tool that raises.
\<close>

theorem record_iff_dispatch_returns:
  "tool_execution_history
     (fst (snd (execute_tool io super_execute_tool self tool_name kwargs))) =
     (case super_execute_tool tool_name kwargs of
        Inl e \<Rightarrow> tool_execution_history self
      | Inr result \<Rightarrow>
          tool_execution_history self @ [execution_record tool_name kwargs result])
   \<and> tool_execution_history
     (fst (snd (execute_tool io (ToolsManager_execute_tool reg) self tool_name kwargs))) =
     (case reg tool_name of
        None \<Rightarrow> tool_execution_history self
      | Some invoke \<Rightarrow>
          (case invoke kwargs of
             Inl e \<Rightarrow> tool_execution_history self
           | Inr result \<Rightarrow>
               tool_execution_history self @ [execution_record tool_name kwargs result]))"
  by (simp add: execute_tool_def ToolsManager_execute_tool_def
      split: option.splits sum.splits prod.splits)

text \<open>
  The claim as stated fails in one direction: the dispatcher invokes the registered tool
  \<open>broken\<close>, and the history is the one before the call.
\<close>

theorem attempted_invocation_counterexample:
  "example_registry ''broken'' = Some broken_calculator \<and>
   broken_calculator [] = Inl (OtherException ''division by zero'') \<and>
   tool_execution_history
     (fst (snd (execute_tool working_console (ToolsManager_execute_tool example_registry)
                  manager_after_success ''broken'' []))) =
     tool_execution_history manager_after_success"
proof -
  have registered: "example_registry ''broken'' = Some broken_calculator"
    by (simp add: example_registry_def)
  have raises: "broken_calculator [] = Inl (OtherException ''division by zero'')"
    by (simp add: broken_calculator_def)
  have "tool_execution_history
     (fst (snd (execute_tool working_console (ToolsManager_execute_tool example_registry)
                  manager_after_success ''broken'' []))) =
     tool_execution_history manager_after_success"
    by (simp add: execute_tool_def dispatch_broken split: prod.splits option.splits)
  with registered raises show ?thesis
    by simp
qed

subsection \<open>Registering a name twice\<close>

text \<open>
  C6 (as amended). Registering a tool under a name that \<^verbatim>\<open>tools_objects_map\<close> already
  holds raises nothing: the new tool takes the place of the earlier one under that name, and
  the names registered stay the same.
\<close>

theorem load_tools_replaces_existing_name:
  "getitem tool_config ''type'' = Inr (PStr tool_type) \<Longrightarrow>
   F tool_type = Some tool_type_class \<Longrightarrow>
   getitem tool_config ''params'' = Inr (PDict params) \<Longrightarrow>
   tool_type_class params = Inr tool_obj \<Longrightarrow>
   map_of params ''name'' = Some (PStr name) \<Longrightarrow>
   map_of tools_objects_map (PStr name) = Some earlier \<Longrightarrow>
     load_tools F [tool_config] tools_objects_map =
       Inr (dict_setitem tools_objects_map (PStr name) tool_obj) \<and>
     map_of (dict_setitem tools_objects_map (PStr name) tool_obj) (PStr name) = Some tool_obj \<and>
     map fst (dict_setitem tools_objects_map (PStr name) tool_obj) = map fst tools_objects_map"
proof -
  assume cfg: "getitem tool_config ''type'' = Inr (PStr tool_type)"
    "F tool_type = Some tool_type_class"
    "getitem tool_config ''params'' = Inr (PDict params)"
    "tool_type_class params = Inr tool_obj"
    "map_of params ''name'' = Some (PStr name)"
  assume present: "map_of tools_objects_map (PStr name) = Some earlier"
  have loaded: "load_tools F [tool_config] tools_objects_map =
      Inr (dict_setitem tools_objects_map (PStr name) tool_obj)"
    using cfg by (simp add: and_then_def)
  have stored: "map_of (dict_setitem m k v) k = Some v" for m :: "(pyval \<times> 'a) list" and k v
    by (induction m) auto
  have keys: "map_of m k = Some w \<Longrightarrow> map fst (dict_setitem m k v) = map fst m"
    for m :: "(pyval \<times> 'a) list" and k v w
    by (induction m) (auto split: if_splits)
  from loaded stored keys [OF present] show ?thesis
    by simp
qed

theorem load_tools_replaces_existing_name_witness:
  "map_of [(PStr ''search'', [(''name'', PStr ''search''), (''description'', PStr ''first'')])]
     (PStr ''search'') = Some [(''name'', PStr ''search''), (''description'', PStr ''first'')] \<and>
   load_tools example_factory [second_search_tool]
     [(PStr ''search'', [(''name'', PStr ''search''), (''description'', PStr ''first'')])] =
     Inr [(PStr ''search'', [(''name'', PStr ''search''), (''description'', PStr ''second'')])]"
proof -
  have cfg: "getitem second_search_tool ''type'' = Inr (PStr ''doc'')"
    "example_factory ''doc'' = Some doc_tool"
    "getitem second_search_tool ''params'' =
       Inr (PDict [(''name'', PStr ''search''), (''description'', PStr ''second'')])"
    "doc_tool [(''name'', PStr ''search''), (''description'', PStr ''second'')] =
       Inr [(''name'', PStr ''search''), (''description'', PStr ''second'')]"
    "map_of [(''name'', PStr ''search''), (''description'', PStr ''second'')] ''name'' =
       Some (PStr ''search'')"
    by (simp_all add: second_search_tool_def example_factory_def doc_tool_def)
  have present:
    "map_of [(PStr ''search'', [(''name'', PStr ''search''), (''description'', PStr ''first'')])]
       (PStr ''search'') = Some [(''name'', PStr ''search''), (''description'', PStr ''first'')]"
    by simp
  from load_tools_replaces_existing_name
         [where F = example_factory and tool_type_class = doc_tool, OF cfg present]
       present
  show ?thesis by simp
qed

text \<open>
  The claim as stated fails: a configuration with two tools named \<open>search\<close> is loaded
  without an error, and the map returned holds the second tool only.
\<close>

theorem duplicate_name_counterexample:
  "dict_get first_search_tool ''params'' =
     Some (PDict [(''name'', PStr ''search''), (''description'', PStr ''first'')]) \<and>
   dict_get second_search_tool ''params'' =
     Some (PDict [(''name'', PStr ''search''), (''description'', PStr ''second'')]) \<and>
   fst (get_basic_conversation_pipeline example_runtime example_factory example_config) =
     Inr (([''fastrag'', ''generators'', ''llama'', ''Generator''],
           [(''model'', PStr ''llama-3-8b''), (''max_new_tokens'', PInt 256)]),
          \<lparr>loaded_from = PStr ''llama-3-8b'', pad_token = Some ''<|eot_id|>'',
             eos_token = Some ''<|eot_id|>''\<rparr>,
          [(PStr ''search'', [(''name'', PStr ''search''), (''description'', PStr ''second'')])])"
  by (simp add: example_basic_pipeline first_search_tool_def second_search_tool_def)

subsection \<open>Append-only memory\<close>

text \<open>
  C7. The conversation memory is append-only. One \<^verbatim>\<open>add_interaction\<close> call makes the
  stored list one entry longer and keeps every earlier entry at its position; after the
  calls \<open>calls\<close> on a new memory the list holds exactly one entry per call, in call order,
  so its length is the number of calls.
\<close>

theorem add_interaction_append_only:
  "length (tool_history (fst (add_interaction self q r m))) = Suc (length (tool_history self))
   \<and> take (length (tool_history self)) (tool_history (fst (add_interaction self q r m)))
       = tool_history self
   \<and> tool_history (add_interactions (EnhancedConversationMemory_init g) calls)
       = map (\<lambda>(q, r, m). interaction_entry [] q r m) calls
   \<and> length (tool_history (add_interactions (EnhancedConversationMemory_init g) calls))
       = length calls"
proof -
  have one: "tool_history (fst (add_interaction self q r m)) =
      tool_history self @ [interaction_entry (system_configs self) q r m]"
    by (rule add_interaction_history)
  have init: "tool_history (EnhancedConversationMemory_init g) = []"
    "system_configs (EnhancedConversationMemory_init g) = []"
    by (simp_all add: EnhancedConversationMemory_init_def)
  have many: "tool_history (add_interactions (EnhancedConversationMemory_init g) calls)
      = map (\<lambda>(q, r, m). interaction_entry [] q r m) calls"
    by (simp add: add_interactions_history init)
  show ?thesis
    by (simp add: one many)
qed

subsection \<open>The debug flag\<close>

text \<open>
  C8 (as amended). For every tool name and keyword arguments, the dispatch with the debug
  flag \<open>flag\<close> and the dispatch with the flag \<open>flag'\<close> leave the same execution history, and
  the managers afterwards differ in the flag at most; without the flag nothing is printed.
  The caller receives the same value or the same exception from both whenever the dispatch
  of the base class returns, or raises an exception that does not derive from
  \<^verbatim>\<open>Exception\<close>, or the diagnostic calls of the handler (\<^verbatim>\<open>str(e)\<close> and the two
  prints) all return.
\<close>

theorem debug_flag_effect:
  "tool_execution_history
     (fst (snd (execute_tool io super_execute_tool (self\<lparr>debug_mode := flag\<rparr>) tool_name kwargs))) =
   tool_execution_history
     (fst (snd (execute_tool io super_execute_tool (self\<lparr>debug_mode := flag'\<rparr>) tool_name kwargs)))
   \<and> fst (snd (execute_tool io super_execute_tool (self\<lparr>debug_mode := flag\<rparr>) tool_name kwargs)) =
     (fst (snd (execute_tool io super_execute_tool (self\<lparr>debug_mode := flag'\<rparr>) tool_name kwargs)))
       \<lparr>debug_mode := flag\<rparr>
   \<and> snd (snd (execute_tool io super_execute_tool (self\<lparr>debug_mode := False\<rparr>) tool_name kwargs)) = []
   \<and> ((case super_execute_tool tool_name kwargs of
          Inr result \<Rightarrow> True
        | Inl e \<Rightarrow> \<not> is_Exception e \<or> fst (report_failure io e kwargs) = None) \<longrightarrow>
        fst (execute_tool io super_execute_tool (self\<lparr>debug_mode := flag\<rparr>) tool_name kwargs) =
        fst (execute_tool io super_execute_tool (self\<lparr>debug_mode := flag'\<rparr>) tool_name kwargs))"
proof (intro conjI impI)
  show "tool_execution_history
     (fst (snd (execute_tool io super_execute_tool (self\<lparr>debug_mode := flag\<rparr>) tool_name kwargs))) =
   tool_execution_history
     (fst (snd (execute_tool io super_execute_tool (self\<lparr>debug_mode := flag'\<rparr>) tool_name kwargs)))"
    by (simp add: execute_tool_def split: sum.splits prod.splits option.splits)
  show "fst (snd (execute_tool io super_execute_tool (self\<lparr>debug_mode := flag\<rparr>) tool_name kwargs)) =
     (fst (snd (execute_tool io super_execute_tool (self\<lparr>debug_mode := flag'\<rparr>) tool_name kwargs)))
       \<lparr>debug_mode := flag\<rparr>"
    by (simp add: execute_tool_def split: sum.splits prod.splits option.splits)
  show "snd (snd (execute_tool io super_execute_tool (self\<lparr>debug_mode := False\<rparr>)
      tool_name kwargs)) = []"
    by (simp add: execute_tool_def split: sum.splits)
next
  assume ok: "case super_execute_tool tool_name kwargs of
          Inr result \<Rightarrow> True
        | Inl e \<Rightarrow> \<not> is_Exception e \<or> fst (report_failure io e kwargs) = None"
  show "fst (execute_tool io super_execute_tool (self\<lparr>debug_mode := flag\<rparr>) tool_name kwargs) =
        fst (execute_tool io super_execute_tool (self\<lparr>debug_mode := flag'\<rparr>) tool_name kwargs)"
  proof (cases "super_execute_tool tool_name kwargs")
    case (Inr result)
    then show ?thesis
      by (simp add: execute_tool_def)
  next
    case (Inl e)
    with ok have "\<not> is_Exception e \<or> fst (report_failure io e kwargs) = None"
      by simp
    with Inl have "fst (execute_tool io super_execute_tool (self\<lparr>debug_mode := d\<rparr>)
        tool_name kwargs) = Inl e" for d
      by (auto simp: execute_tool_def split: prod.splits option.splits)
    then show ?thesis
      by simp
  qed
qed

theorem debug_flag_effect_witness:
  "fst (report_failure working_console (OtherException ''division by zero'')
          [(''expr'', PStr ''1/0'')]) = None \<and>
   fst (execute_tool working_console (ToolsManager_execute_tool example_registry)
          (quiet_manager\<lparr>debug_mode := True\<rparr>) ''broken'' [(''expr'', PStr ''1/0'')]) =
   fst (execute_tool working_console (ToolsManager_execute_tool example_registry)
          (quiet_manager\<lparr>debug_mode := False\<rparr>) ''broken'' [(''expr'', PStr ''1/0'')]) \<and>
   fst (execute_tool working_console (ToolsManager_execute_tool example_registry)
          (quiet_manager\<lparr>debug_mode := False\<rparr>) ''broken'' [(''expr'', PStr ''1/0'')]) =
     Inl (OtherException ''division by zero'')"
proof -
  have reported: "fst (report_failure working_console (OtherException ''division by zero'')
      [(''expr'', PStr ''1/0'')]) = None"
    by (simp add: report_broken_working)
  have ok: "case ToolsManager_execute_tool example_registry ''broken'' [(''expr'', PStr ''1/0'')] of
        Inr result \<Rightarrow> True
      | Inl e \<Rightarrow> \<not> is_Exception e \<or>
          fst (report_failure working_console e [(''expr'', PStr ''1/0'')]) = None"
    by (simp add: dispatch_broken reported)
  have quiet: "fst (execute_tool working_console (ToolsManager_execute_tool example_registry)
      (quiet_manager\<lparr>debug_mode := False\<rparr>) ''broken'' [(''expr'', PStr ''1/0'')]) =
      Inl (OtherException ''division by zero'')"
    by (simp add: execute_tool_def dispatch_broken)
  from debug_flag_effect
         [where io = working_console and self = quiet_manager and flag = True and flag' = False
            and super_execute_tool = "ToolsManager_execute_tool example_registry"
            and tool_name = "''broken''" and kwargs = "[(''expr'', PStr ''1/0'')]"]
       ok reported quiet
  show ?thesis
    by simp
qed

text \<open>
  The claim as stated fails when standard output is closed: the tool \<open>broken\<close> raises, and
  the caller receives the \<^verbatim>\<open>ValueError\<close> of the first print with the flag set, but the
  tool's own exception without it.
\<close>

theorem debug_flag_counterexample:
  "fst (execute_tool closed_console (ToolsManager_execute_tool example_registry)
          (quiet_manager\<lparr>debug_mode := True\<rparr>) ''broken'' [(''expr'', PStr ''1/0'')]) =
     Inl ValueError \<and>
   fst (execute_tool closed_console (ToolsManager_execute_tool example_registry)
          (quiet_manager\<lparr>debug_mode := False\<rparr>) ''broken'' [(''expr'', PStr ''1/0'')]) =
     Inl (OtherException ''division by zero'')"
  by (simp add: execute_tool_def dispatch_broken report_broken_closed)

subsection \<open>The stopping criteria of the generator\<close>

text \<open>
  C9. \<^verbatim>\<open>get_generator\<close> builds the stop-words criterion over the three markers: when
  that constructor raises on them, so does \<^verbatim>\<open>get_generator\<close>. What the two
  stopping-criteria constructors return has no influence on the outcome. A successful call
  returns the pair of the generator, built by the resolved class from
  \<^verbatim>\<open>generator_kwargs\<close> alone and warmed up, and the tokenizer; and the call is
  successful, with that pair, whenever each of its steps returns.
\<close>

theorem get_generator_stopping_criteria_unused:
  "(resolve_generator_class env config = Inr generator_class \<longrightarrow>
    load_tokenizer env config = Inr tok \<longrightarrow>
    StopWordsByTextCriteria env tok [''Observation:'', ''<|eot_id|>'', ''<|end|>''] ''cpu'' = Inl e \<longrightarrow>
      get_generator env config = (Inl e, []))
   \<and> get_generator (env\<lparr>StopWordsByTextCriteria := \<lambda>tok stop_words device. Inr sw,
                          StoppingCriteriaList := \<lambda>criteria. Inr scl\<rparr>) config =
     get_generator (env\<lparr>StopWordsByTextCriteria := \<lambda>tok stop_words device. Inr sw',
                          StoppingCriteriaList := \<lambda>criteria. Inr scl'\<rparr>) config
   \<and> (fst (get_generator env config) = Inr (generator, tok') \<longrightarrow>
        (\<exists>cls kwargs built.
           resolve_generator_class env config = Inr cls \<and>
           getitem config ''generator_kwargs'' = Inr (PDict kwargs) \<and>
           call_class env cls kwargs = Inr built \<and>
           warm_up env built = Inr generator \<and>
           load_tokenizer env config = Inr tok'))
   \<and> (resolve_generator_class env config = Inr generator_class \<longrightarrow>
       load_tokenizer env config = Inr tok \<longrightarrow>
       StopWordsByTextCriteria env tok [''Observation:'', ''<|eot_id|>'', ''<|end|>''] ''cpu''
         = Inr criterion \<longrightarrow>
       StoppingCriteriaList env [criterion] = Inr criteria_list \<longrightarrow>
       getitem config ''generator_kwargs'' = Inr (PDict generator_kwargs) \<longrightarrow>
       call_class env generator_class generator_kwargs = Inr new_generator \<longrightarrow>
       warm_up env new_generator = Inr warm_generator \<longrightarrow>
         fst (get_generator env config) = Inr (warm_generator, tok))"
proof (intro conjI impI)
  assume "resolve_generator_class env config = Inr generator_class"
    and "load_tokenizer env config = Inr tok"
    and "StopWordsByTextCriteria env tok [''Observation:'', ''<|eot_id|>'', ''<|end|>''] ''cpu''
         = Inr criterion"
    and "StoppingCriteriaList env [criterion] = Inr criteria_list"
    and "getitem config ''generator_kwargs'' = Inr (PDict generator_kwargs)"
    and "call_class env generator_class generator_kwargs = Inr new_generator"
    and "warm_up env new_generator = Inr warm_generator"
  then show "fst (get_generator env config) = Inr (warm_generator, tok)"
    by (simp add: get_generator_def build_stopping_criteria_def stop_word_list_def
        build_generator_def and_then_def)
next
  assume "resolve_generator_class env config = Inr generator_class"
    and "load_tokenizer env config = Inr tok"
    and "StopWordsByTextCriteria env tok [''Observation:'', ''<|eot_id|>'', ''<|end|>''] ''cpu'' = Inl e"
  then show "get_generator env config = (Inl e, [])"
    by (simp add: get_generator_def build_stopping_criteria_def stop_word_list_def and_then_def)
next
  show "get_generator (env\<lparr>StopWordsByTextCriteria := \<lambda>tok stop_words device. Inr sw,
                          StoppingCriteriaList := \<lambda>criteria. Inr scl\<rparr>) config =
     get_generator (env\<lparr>StopWordsByTextCriteria := \<lambda>tok stop_words device. Inr sw',
                          StoppingCriteriaList := \<lambda>criteria. Inr scl'\<rparr>) config"
    by (simp add: get_generator_constant_criteria)
next
  assume ok: "fst (get_generator env config) = Inr (generator, tok')"
  then obtain cls where cls: "resolve_generator_class env config = Inr cls"
    by (auto simp: get_generator_def split: sum.splits)
  with ok obtain tok where tok: "load_tokenizer env config = Inr tok"
    by (auto simp: get_generator_def split: sum.splits)
  with ok cls have built: "build_generator env config cls tok = Inr (generator, tok')"
    by (auto simp: get_generator_def split: sum.splits)
  then obtain gk where gk: "getitem config ''generator_kwargs'' = Inr gk"
    by (auto simp: build_generator_def and_then_def split: sum.splits)
  with built obtain kwargs where kwargs: "gk = PDict kwargs"
    by (cases gk) (auto simp: build_generator_def and_then_def)
  with built gk obtain g0 where g0: "call_class env cls kwargs = Inr g0"
    by (auto simp: build_generator_def and_then_def split: sum.splits)
  with built gk kwargs have "warm_up env g0 = Inr generator" and "tok' = tok"
    by (auto simp: build_generator_def and_then_def split: sum.splits)
  with cls tok gk kwargs g0 show "\<exists>cls kwargs built.
           resolve_generator_class env config = Inr cls \<and>
           getitem config ''generator_kwargs'' = Inr (PDict kwargs) \<and>
           call_class env cls kwargs = Inr built \<and>
           warm_up env built = Inr generator \<and>
           load_tokenizer env config = Inr tok'"
    by blast
qed

theorem get_generator_stopping_criteria_unused_witness:
  "get_generator failing_criteria_runtime example_chat_model =
     (Inl (OtherException ''no such device''), []) \<and>
   fst (get_generator example_runtime example_chat_model) =
     Inr (([''fastrag'', ''generators'', ''llama'', ''Generator''],
           [(''model'', PStr ''llama-3-8b''), (''max_new_tokens'', PInt 256)]),
          \<lparr>loaded_from = PStr ''llama-3-8b'', pad_token = Some ''<|eot_id|>'',
             eos_token = Some ''<|eot_id|>''\<rparr>) \<and>
   (\<exists>cls kwargs built.
      resolve_generator_class example_runtime example_chat_model = Inr cls \<and>
      getitem example_chat_model ''generator_kwargs'' = Inr (PDict kwargs) \<and>
      call_class example_runtime cls kwargs = Inr built \<and>
      warm_up example_runtime built =
        Inr ([''fastrag'', ''generators'', ''llama'', ''Generator''],
             [(''model'', PStr ''llama-3-8b''), (''max_new_tokens'', PInt 256)]) \<and>
      load_tokenizer example_runtime example_chat_model =
        Inr \<lparr>loaded_from = PStr ''llama-3-8b'', pad_token = Some ''<|eot_id|>'',
              eos_token = Some ''<|eot_id|>''\<rparr>)"
proof -
  let ?tok = "\<lparr>loaded_from = PStr ''llama-3-8b'', pad_token = Some ''<|eot_id|>'',
                eos_token = Some ''<|eot_id|>''\<rparr>"
  let ?cls = "[''fastrag'', ''generators'', ''llama'', ''Generator'']"
  let ?kwargs = "[(''model'', PStr ''llama-3-8b''), (''max_new_tokens'', PInt 256)]"
  have cls_f: "resolve_generator_class failing_criteria_runtime example_chat_model = Inr ?cls"
    by (simp add: resolve_generator_class_def failing_criteria_runtime_def example_runtime_def
        example_chat_model_def and_then_def)
  have tok_f: "load_tokenizer failing_criteria_runtime example_chat_model = Inr ?tok"
    by (simp add: load_tokenizer_def failing_criteria_runtime_def example_runtime_def
        example_chat_model_def and_then_def set_pad_token_def)
  have fails: "StopWordsByTextCriteria failing_criteria_runtime ?tok
      [''Observation:'', ''<|eot_id|>'', ''<|end|>''] ''cpu'' =
      Inl (OtherException ''no such device'')"
    by (simp add: failing_criteria_runtime_def)
  have cls: "resolve_generator_class example_runtime example_chat_model = Inr ?cls"
    by (simp add: resolve_generator_class_def example_runtime_def example_chat_model_def
        and_then_def)
  have tok: "load_tokenizer example_runtime example_chat_model = Inr ?tok"
    by (simp add: load_tokenizer_def example_runtime_def example_chat_model_def and_then_def
        set_pad_token_def)
  have criterion: "StopWordsByTextCriteria example_runtime ?tok
      [''Observation:'', ''<|eot_id|>'', ''<|end|>''] ''cpu'' =
      Inr [''Observation:'', ''<|eot_id|>'', ''<|end|>'']"
    and criteria: "StoppingCriteriaList example_runtime
      [[''Observation:'', ''<|eot_id|>'', ''<|end|>'']] =
      Inr [[''Observation:'', ''<|eot_id|>'', ''<|end|>'']]"
    and kwargs: "getitem example_chat_model ''generator_kwargs'' = Inr (PDict ?kwargs)"
    and built: "call_class example_runtime ?cls ?kwargs = Inr (?cls, ?kwargs)"
    and warm: "warm_up example_runtime (?cls, ?kwargs) = Inr (?cls, ?kwargs)"
    by (simp_all add: example_runtime_def example_chat_model_def)
  from get_generator_stopping_criteria_unused
         [where env = failing_criteria_runtime and config = example_chat_model
            and e = "OtherException ''no such device''"]
       cls_f tok_f fails
  have first: "get_generator failing_criteria_runtime example_chat_model =
      (Inl (OtherException ''no such device''), [])"
    by blast
  from get_generator_stopping_criteria_unused
         [where env = example_runtime and config = example_chat_model]
       cls tok criterion criteria kwargs built warm
  have returned: "fst (get_generator example_runtime example_chat_model) =
      Inr ((?cls, ?kwargs), ?tok)"
    by blast
  from get_generator_stopping_criteria_unused
         [where env = example_runtime and config = example_chat_model]
       returned
  have pieces: "\<exists>cls kwargs built.
      resolve_generator_class example_runtime example_chat_model = Inr cls \<and>
      getitem example_chat_model ''generator_kwargs'' = Inr (PDict kwargs) \<and>
      call_class example_runtime cls kwargs = Inr built \<and>
      warm_up example_runtime built = Inr (?cls, ?kwargs) \<and>
      load_tokenizer example_runtime example_chat_model = Inr ?tok"
    by blast
  from first returned pieces show ?thesis
    by blast
qed

subsection \<open>The pad token\<close>

text \<open>
  C10. When \<^verbatim>\<open>get_generator\<close> returns, its tokenizer is the one loaded for
  \<^verbatim>\<open>generator_kwargs["model"]\<close>: with the pad token set to the end-of-sequence token if
  the loaded tokenizer had none (\<^verbatim>\<open>None\<close>, or the empty string, which Python also takes
  for false), and unchanged if it had one.
\<close>

theorem get_generator_pad_token:
  "getitem config ''generator_kwargs'' = Inr generator_kwargs \<Longrightarrow>
   getitem generator_kwargs ''model'' = Inr model \<Longrightarrow>
   from_pretrained env model = Inr tok \<Longrightarrow>
   fst (get_generator env config) = Inr (generator, tok') \<Longrightarrow>
     tok' = (case pad_token tok of
               None \<Rightarrow> tok\<lparr>pad_token := eos_token tok\<rparr>
             | Some p \<Rightarrow> if p = [] then tok\<lparr>pad_token := eos_token tok\<rparr> else tok)"
proof -
  assume gk: "getitem config ''generator_kwargs'' = Inr generator_kwargs"
    and model: "getitem generator_kwargs ''model'' = Inr model"
    and loaded: "from_pretrained env model = Inr tok"
    and ok: "fst (get_generator env config) = Inr (generator, tok')"
  from gk model loaded have tok: "load_tokenizer env config = Inr (set_pad_token tok)"
    by (simp add: load_tokenizer_def and_then_def)
  from ok tok have "tok' = set_pad_token tok"
    by (auto simp: get_generator_def build_generator_def and_then_def split: sum.splits)
  then show ?thesis
    by (cases "pad_token tok") (simp_all add: set_pad_token_def)
qed

theorem get_generator_pad_token_witness:
  "from_pretrained example_runtime (PStr ''llama-3-8b'') =
     Inr \<lparr>loaded_from = PStr ''llama-3-8b'', pad_token = None, eos_token = Some ''<|eot_id|>''\<rparr> \<and>
   snd (projr (fst (get_generator example_runtime example_chat_model))) =
     \<lparr>loaded_from = PStr ''llama-3-8b'', pad_token = Some ''<|eot_id|>'',
        eos_token = Some ''<|eot_id|>''\<rparr>"
proof -
  have gk: "getitem example_chat_model ''generator_kwargs'' =
      Inr (PDict [(''model'', PStr ''llama-3-8b''), (''max_new_tokens'', PInt 256)])"
    by (simp add: example_chat_model_def)
  have model: "getitem (PDict [(''model'', PStr ''llama-3-8b''), (''max_new_tokens'', PInt 256)])
      ''model'' = Inr (PStr ''llama-3-8b'')"
    by simp
  have loaded: "from_pretrained example_runtime (PStr ''llama-3-8b'') =
      Inr \<lparr>loaded_from = PStr ''llama-3-8b'', pad_token = None, eos_token = Some ''<|eot_id|>''\<rparr>"
    by (simp add: example_runtime_def)
  have ok: "fst (get_generator example_runtime example_chat_model) =
      Inr (([''fastrag'', ''generators'', ''llama'', ''Generator''],
            [(''model'', PStr ''llama-3-8b''), (''max_new_tokens'', PInt 256)]),
           \<lparr>loaded_from = PStr ''llama-3-8b'', pad_token = Some ''<|eot_id|>'',
              eos_token = Some ''<|eot_id|>''\<rparr>)"
    by (simp add: example_generator)
  from get_generator_pad_token [OF gk model loaded ok] loaded ok show ?thesis
    by simp
qed

end
